theory Spec2Isabelle
  imports Complex_Main
begin

section \<open>Python values and arithmetic\<close>

text \<open>
  Both scripts are Python 2 programs (\<^verbatim>\<open>print error\<close> is a statement, and there is no
  \<^verbatim>\<open>from __future__ import division\<close>). A Python number is an \<^verbatim>\<open>int\<close> or a
  \<^verbatim>\<open>float\<close>. Floats are idealised as real numbers: rounding, overflow, infinities
  and NaN are outside the model. Every exception the scripts can raise is a value of
  \<open>error\<close>; a computation that may raise returns \<open>error + 'a\<close>.
\<close>

datatype error =
    ZeroDivisionError
  | ValueError
  | IndexError
  | TypeError
  | RuntimeError
  | LicenseError
  | NotNegative
  | NoFeatures

datatype pynum = PInt int | PFloat real

text \<open>\<^verbatim>\<open>float(x)\<close>: the numeric value of a Python number.\<close>

fun py_float :: "pynum \<Rightarrow> real" where
  "py_float (PInt i) = real_of_int i"
| "py_float (PFloat x) = x"

text \<open>\<^verbatim>\<open>a - b\<close>, \<^verbatim>\<open>a + b\<close>, \<^verbatim>\<open>a * b\<close>: integer when both are integers, float otherwise.\<close>

fun py_sub :: "pynum \<Rightarrow> pynum \<Rightarrow> pynum" where
  "py_sub (PInt a) (PInt b) = PInt (a - b)"
| "py_sub a b = PFloat (py_float a - py_float b)"

fun py_add :: "pynum \<Rightarrow> pynum \<Rightarrow> pynum" where
  "py_add (PInt a) (PInt b) = PInt (a + b)"
| "py_add a b = PFloat (py_float a + py_float b)"

fun py_mul :: "pynum \<Rightarrow> pynum \<Rightarrow> pynum" where
  "py_mul (PInt a) (PInt b) = PInt (a * b)"
| "py_mul a b = PFloat (py_float a * py_float b)"

text \<open>\<^verbatim>\<open>a ** 2\<close>.\<close>

fun py_sq :: "pynum \<Rightarrow> pynum" where
  "py_sq (PInt a) = PInt (a ^ 2)"
| "py_sq (PFloat a) = PFloat (a ^ 2)"

text \<open>
  \<^verbatim>\<open>a / b\<close> in Python 2: floor division when both are integers, true division when
  one is a float, \<^verbatim>\<open>ZeroDivisionError\<close> when the divisor is zero.
\<close>

fun py_div :: "pynum \<Rightarrow> pynum \<Rightarrow> error + pynum" where
  "py_div (PInt a) (PInt b) = (if b = 0 then Inl ZeroDivisionError else Inr (PInt (a div b)))"
| "py_div a b =
     (if py_float b = 0 then Inl ZeroDivisionError else Inr (PFloat (py_float a / py_float b)))"

text \<open>\<^verbatim>\<open>abs(a)\<close>.\<close>

fun py_abs :: "pynum \<Rightarrow> pynum" where
  "py_abs (PInt a) = PInt \<bar>a\<bar>"
| "py_abs (PFloat a) = PFloat \<bar>a\<bar>"

text \<open>\<^verbatim>\<open>a < b\<close> and \<^verbatim>\<open>a > b\<close> on numbers compare the numeric values.\<close>

definition py_lt :: "pynum \<Rightarrow> pynum \<Rightarrow> bool" where
  "py_lt a b = (py_float a < py_float b)"

definition py_gt :: "pynum \<Rightarrow> pynum \<Rightarrow> bool" where
  "py_gt a b = (py_float a > py_float b)"

text \<open>
  The float \<^verbatim>\<open>-0.0\<close> equals \<^verbatim>\<open>0.0\<close> as a number, and \<open>pynum\<close> does not tell the two
  apart: \<open>PFloat 0\<close> stands for \<^verbatim>\<open>0.0\<close>. Only \<^verbatim>\<open>math.atan2\<close> gives the two zeros different
  results, so the numbers that reach it, the coordinates of \<open>azimuth\<close>, are of a type of
  their own: a Python number, or the float \<^verbatim>\<open>-0.0\<close>.
\<close>

datatype coord = Num pynum | NegZero

fun coord_float :: "coord \<Rightarrow> real" where
  "coord_float (Num n) = py_float n"
| "coord_float NegZero = 0"

text \<open>
  \<^verbatim>\<open>a - b\<close> on coordinates. A difference of floats that is zero is \<^verbatim>\<open>0.0\<close>, except that
  \<^verbatim>\<open>-0.0 - 0.0\<close> is \<^verbatim>\<open>-0.0\<close> (an integer 0 is converted to \<^verbatim>\<open>0.0\<close> first).
\<close>

fun coord_sub :: "coord \<Rightarrow> coord \<Rightarrow> coord" where
  "coord_sub (Num a) (Num b) = Num (py_sub a b)"
| "coord_sub (Num a) NegZero = Num (PFloat (py_float a))"
| "coord_sub NegZero (Num b) = (if py_float b = 0 then NegZero else Num (PFloat (- py_float b)))"
| "coord_sub NegZero NegZero = Num (PFloat 0)"

text \<open>
  \<^verbatim>\<open>math.atan2(y, x)\<close>, the arguments converted to floats: the angle of the point
  \<open>(x, y)\<close> in \<open>[-\<pi>, \<pi>]\<close>, with the C library's results at the zeros. For \<open>y\<close> a zero
  the result has the sign of that zero: it is \<open>\<plusminus>0\<close> when \<open>x\<close> is positive or \<^verbatim>\<open>0.0\<close>, and
  \<open>\<plusminus>\<pi>\<close> when \<open>x\<close> is negative or \<^verbatim>\<open>-0.0\<close>. The result is a number: a result \<^verbatim>\<open>-0.0\<close> is 0.
\<close>

definition atan2 :: "coord \<Rightarrow> coord \<Rightarrow> real" where
  "atan2 y x =
     (let yv = coord_float y; xv = coord_float x in
      if 0 < xv then arctan (yv / xv)
      else if xv < 0 then
        (if 0 < yv \<or> (yv = 0 \<and> y \<noteq> NegZero) then arctan (yv / xv) + pi
         else arctan (yv / xv) - pi)
      else if 0 < yv then pi / 2
      else if yv < 0 then - (pi / 2)
      else if x = NegZero then (if y = NegZero then - pi else pi)
      else 0)"

text \<open>\<^verbatim>\<open>math.hypot(x, y)\<close> and \<^verbatim>\<open>math.sqrt(x)\<close> (\<^verbatim>\<open>ValueError\<close> below zero).\<close>

definition hypot :: "real \<Rightarrow> real \<Rightarrow> real" where
  "hypot x y = sqrt (x ^ 2 + y ^ 2)"

definition math_sqrt :: "real \<Rightarrow> error + real" where
  "math_sqrt x = (if x < 0 then Inl ValueError else Inr (sqrt x))"

section \<open>Geometry primitives of AnalyseGeoDepressions.py\<close>

text \<open>
  \<^verbatim>\<open>azimuth(coords)\<close>, lines 27-39. \<open>coords\<close> is the list \<open>[x1, x2, y1, y2]\<close>; the
  function reads \<open>coords[1] - coords[0]\<close> and \<open>coords[3] - coords[2]\<close>, so a list
  shorter than four raises \<^verbatim>\<open>IndexError\<close>.
\<close>

definition azimuth :: "coord list \<Rightarrow> error + real" where
  "azimuth coords =
     (if length coords < 4 then Inl IndexError
      else
        let radians = atan2 (coord_sub (coords ! 1) (coords ! 0))
                            (coord_sub (coords ! 3) (coords ! 2));
            degrees = (radians * 180) / pi
        in Inr (if degrees < 0 then degrees + 180 else degrees))"


text \<open>\<^verbatim>\<open>eccentricity(major_axis, minor_axis)\<close>, lines 42-51.\<close>

definition eccentricity :: "pynum \<Rightarrow> pynum \<Rightarrow> error + real" where
  "eccentricity major_axis minor_axis =
     (if (py_float major_axis) ^ 2 = 0 then Inl ZeroDivisionError
      else math_sqrt (((py_float major_axis) ^ 2 - (py_float minor_axis) ^ 2)
                        / (py_float major_axis) ^ 2))"

text \<open>\<^verbatim>\<open>thinness_ratio(area, perimeter)\<close>, lines 54-63.\<close>

definition thinness_ratio :: "pynum \<Rightarrow> pynum \<Rightarrow> error + pynum" where
  "thinness_ratio area perimeter =
     (case py_div area (py_sq perimeter) of
        Inl e \<Rightarrow> Inl e
      | Inr q \<Rightarrow> Inr (py_mul (py_mul (PInt 4) (PFloat pi)) q))"

text \<open>\<^verbatim>\<open>shape_descriptor(poly_thinness, poly_dd_ratio)\<close>, lines 66-80, and its three labels.\<close>

definition IRREGULAR :: string where
  "IRREGULAR = ''Irregular shape and/or low dia/dep ratio. Unlikely to be caused by fluid escape''"

definition SEMI_REGULAR :: string where
  "SEMI_REGULAR = ''Semi-regular shape. Depression needs further investigation''"

definition REGULAR :: string where
  "REGULAR = ''Regular shape. Potentially a geo-feature caused by fluid escape''"

definition shape_descriptor :: "pynum \<Rightarrow> pynum \<Rightarrow> string" where
  "shape_descriptor poly_thinness poly_dd_ratio =
     (if py_lt poly_thinness (PFloat 0.5) \<or> py_gt poly_dd_ratio (PInt 100) then IRREGULAR
      else if py_lt poly_thinness (PFloat 0.75) then SEMI_REGULAR
      else REGULAR)"

text \<open>\<^verbatim>\<open>diameter_depth_ratio(diameter, depth)\<close>, lines 82-91.\<close>

definition diameter_depth_ratio :: "pynum \<Rightarrow> pynum \<Rightarrow> error + pynum" where
  "diameter_depth_ratio diameter depth =
     (case py_div diameter depth of
        Inl e \<Rightarrow> Inl e
      | Inr q \<Rightarrow> Inr (py_abs q))"

section \<open>Features, rasters and the engine\<close>

text \<open>
  The geoprocessing engine (arcpy) is not part of the repository. Its data is modelled by
  what the scripts read and write: a geometry by the properties the scripts use, a feature
  by its attribute fields (\<open>None\<close> is NULL), a raster by its cell values (\<open>None\<close> is
  NoData). A point made from a raster cell lies at that cell, so the place of a point is a
  cell, and a polygon geometry lists the cells whose points it contains.
\<close>

type_synonym cell = "int \<times> int"

type_synonym raster = "cell \<Rightarrow> real option"

record shape =
  area :: real
  length_s :: real
  hullRectangle :: "coord list"
  covers :: "cell list"
  labelPoint :: "real \<times> real"

text \<open>
  The attribute fields of a depression polygon: \<open>POCK_DEP\<close> comes from the identification
  run, the others are added by lines 139-144 of AnalyseGeoDepressions.py (\<open>AREA_M\<close> already
  by line 86 of IdentifyGeoDepressions.py).
\<close>

record attributes =
  DEP_ID :: "int option"
  AREA_M :: "real option"
  PERIMETER :: "real option"
  MAJ_AXIS :: "real option"
  MIN_AXIS :: "real option"
  ECC :: "real option"
  AZIMUTH :: "real option"
  THIN_RAT :: "real option"
  MORP_CHAR :: "string option"
  DIDP_RAT :: "real option"
  POCK_DEP :: "pynum option"

record polygon = attributes +
  SHAPE :: shape

text \<open>A point made by \<^verbatim>\<open>RasterToPoint_conversion\<close>, with the field line 136 adds.\<close>

record point =
  location :: cell
  GRID_CODE :: real
  DEPTH :: "real option"

text \<open>
  A deepest point after the spatial join of line 202: the field mapping of lines 193-199
  names ten polygon fields, and these are the attribute fields of the joined point.
\<close>

record joined_point =
  dp_location :: cell
  dp_POCK_DEP :: "pynum option"
  dp_DEP_ID :: "int option"
  dp_MAJ_AXIS :: "real option"
  dp_MIN_AXIS :: "real option"
  dp_ECC :: "real option"
  dp_AZIMUTH :: "real option"
  dp_THIN_RAT :: "real option"
  dp_AREA_M :: "real option"
  dp_PERIMETER :: "real option"
  dp_MORP_CHAR :: "string option"

text \<open>A point made by \<^verbatim>\<open>FeatureToPoint_management\<close>: the polygon's attributes at a point.\<close>

record centroid_point = attributes +
  POINT :: "real \<times> real"

text \<open>The bathymetry raster: its statistics, its cell size, its cells and their values.\<close>

record raster_dataset =
  maximum :: real
  meanCellWidth :: real
  cells :: "cell list"
  cell_values :: raster

datatype statistics_type = MINIMUM | MAXIMUM

text \<open>
  The engine operations whose results the scripts only pass on are parameters of the
  model: the answer of \<^verbatim>\<open>CheckExtension\<close>, \<^verbatim>\<open>ZonalStatistics\<close> and
  \<^verbatim>\<open>SmoothPolygon_cartography\<close> (given its tolerance).
\<close>

record engine =
  CheckExtension :: string
  ZonalStatistics :: "polygon list \<Rightarrow> raster \<Rightarrow> statistics_type \<Rightarrow> raster"
  SmoothPolygon :: "polygon list \<Rightarrow> real \<Rightarrow> polygon list"

text \<open>Sequencing of computations that may raise.\<close>

definition on_ok :: "error + 'a \<Rightarrow> ('a \<Rightarrow> error + 'b) \<Rightarrow> error + 'b" where
  "on_ok r f = (case r of Inl e \<Rightarrow> Inl e | Inr v \<Rightarrow> f v)"

section \<open>The depth locator, lines 124-136 of AnalyseGeoDepressions.py\<close>

text \<open>Map algebra, cell by cell; NoData in an operand gives NoData.\<close>

definition raster_minus :: "raster \<Rightarrow> raster \<Rightarrow> raster" where
  "raster_minus a b = (\<lambda>c. case (a c, b c) of (Some x, Some y) \<Rightarrow> Some (x - y) | _ \<Rightarrow> None)"

definition raster_abs :: "raster \<Rightarrow> raster" where
  "raster_abs a = (\<lambda>c. map_option abs (a c))"

definition raster_less :: "raster \<Rightarrow> real \<Rightarrow> cell \<Rightarrow> bool option" where
  "raster_less a k = (\<lambda>c. map_option (\<lambda>x. x < k) (a c))"

text \<open>\<^verbatim>\<open>Con(condition, true_raster)\<close> with no false raster: NoData where the condition fails.\<close>

definition Con :: "(cell \<Rightarrow> bool option) \<Rightarrow> raster \<Rightarrow> raster" where
  "Con cond true_raster = (\<lambda>c. case cond c of Some True \<Rightarrow> true_raster c | _ \<Rightarrow> None)"

definition depression_depth :: "raster \<Rightarrow> raster \<Rightarrow> raster \<Rightarrow> raster" where
  "depression_depth zonal_min zonal_max bathy_dataset =
     Con (raster_less
            (raster_abs (raster_minus (raster_abs (raster_minus zonal_max bathy_dataset))
                                      (raster_abs (raster_minus zonal_max zonal_min))))
            0.001)
         (raster_abs (raster_minus zonal_max zonal_min))"

text \<open>\<^verbatim>\<open>RasterToPoint_conversion\<close>: one point for every cell that holds a value.\<close>

definition RasterToPoint :: "cell list \<Rightarrow> raster \<Rightarrow> point list" where
  "RasterToPoint cs r =
     List.map_filter
       (\<lambda>c. map_option (\<lambda>v. \<lparr>location = c, GRID_CODE = v, DEPTH = None\<rparr>) (r c)) cs"

text \<open>\<^verbatim>\<open>ExtractMultiValuesToPoints\<close> with the field \<open>DEPTH\<close>, not interpolated.\<close>

definition ExtractMultiValuesToPoints :: "point list \<Rightarrow> raster \<Rightarrow> point list" where
  "ExtractMultiValuesToPoints ps r = map (\<lambda>p. p\<lparr>DEPTH := r (location p)\<rparr>) ps"

definition deepest_point :: "engine \<Rightarrow> raster_dataset \<Rightarrow> polygon list \<Rightarrow> point list" where
  "deepest_point eng bathy_dataset depression_polygons =
     (let zonal_min = ZonalStatistics eng depression_polygons (cell_values bathy_dataset) MINIMUM;
          zonal_max = ZonalStatistics eng depression_polygons (cell_values bathy_dataset) MAXIMUM;
          depression_depth = depression_depth zonal_min zonal_max (cell_values bathy_dataset)
      in ExtractMultiValuesToPoints
           (RasterToPoint (cells bathy_dataset) depression_depth) (cell_values bathy_dataset))"

text \<open>
  The selection rule in the words of the specification, section 4.3: a cell of elevation
  \<open>e\<close> is the deepest point when \<open>|zonal_max - e| - |zonal_max - zonal_min| < 1e-3\<close>.
\<close>

definition spec_deepest :: "real \<Rightarrow> real \<Rightarrow> real \<Rightarrow> bool" where
  "spec_deepest zonal_max zonal_min e = (\<bar>zonal_max - e\<bar> - \<bar>zonal_max - zonal_min\<bar> < 0.001)"

section \<open>The cursor loop, lines 155-186 of AnalyseGeoDepressions.py\<close>

text \<open>
  \<^verbatim>\<open>cursor.updateRow(row)\<close>. \<open>DEP_ID\<close> is a \<^verbatim>\<open>SHORT\<close> field (line 144), 16 bits wide; the
  cursor raises \<^verbatim>\<open>RuntimeError\<close> for a number the field cannot hold.
\<close>

definition updateRow :: "polygon \<Rightarrow> error + polygon" where
  "updateRow row =
     (case DEP_ID row of
        None \<Rightarrow> Inr row
      | Some i \<Rightarrow> if - 32768 \<le> i \<and> i \<le> 32767 then Inr row else Inl RuntimeError)"

text \<open>
  One pass of the loop body, lines 160-184, for the row \<open>row\<close> and the counter \<open>dep_id\<close>.
  \<open>hullRectangle\<close> holds the floats of the engine's space-separated string; unpacking
  anything but eight of them raises \<^verbatim>\<open>ValueError\<close>. A NULL \<open>POCK_DEP\<close> reaches the
  division as \<^verbatim>\<open>None\<close>, a \<^verbatim>\<open>TypeError\<close>.
\<close>

definition loop_body :: "int \<Rightarrow> polygon \<Rightarrow> error + polygon" where
  "loop_body dep_id row =
     (let shape_object = SHAPE row;
          row2 = area shape_object;
          row3 = length_s shape_object;
          hr = hullRectangle shape_object
      in if length hr \<noteq> 8 then Inl ValueError
      else
        let x1 = hr ! 0; y1 = hr ! 1; x2 = hr ! 2; y2 = hr ! 3; x3 = hr ! 4; y3 = hr ! 5;
            distance1 = hypot (coord_float x1 - coord_float x2) (coord_float y1 - coord_float y2);
            distance2 = hypot (coord_float x2 - coord_float x3) (coord_float y2 - coord_float y3);
            min_axis = (if distance1 \<le> distance2 then distance1 else distance2);
            maj_axis = (if distance1 \<le> distance2 then distance2 else distance1);
            azimuth_coords =
              (if distance1 \<le> distance2 then [x2, x3, y2, y3] else [x1, x2, y1, y2])
        in
          on_ok (eccentricity (PFloat maj_axis) (PFloat min_axis)) (\<lambda>row6.
          on_ok (azimuth azimuth_coords) (\<lambda>row7.
          on_ok (thinness_ratio (PFloat row2) (PFloat row3)) (\<lambda>row8.
          on_ok (py_div (py_add (PFloat maj_axis) (PFloat min_axis)) (PInt 2))
            (\<lambda>average_diameter.
          on_ok (case POCK_DEP row of
                   None \<Rightarrow> Inl TypeError
                 | Some depth \<Rightarrow> diameter_depth_ratio average_diameter depth) (\<lambda>row10.
          updateRow
            (row\<lparr>DEP_ID := Some dep_id,
                 AREA_M := Some row2,
                 PERIMETER := Some row3,
                 MAJ_AXIS := Some maj_axis,
                 MIN_AXIS := Some min_axis,
                 ECC := Some row6,
                 AZIMUTH := Some row7,
                 THIN_RAT := Some (py_float row8),
                 MORP_CHAR := Some (shape_descriptor row8 row10),
                 DIDP_RAT := Some (py_float row10)\<rparr>)))))))"

text \<open>
  The loop: \<open>dep_id\<close> starts at 1 (line 158) and grows by one after every row (line 185).
  No statement of the loop catches an exception, so the first one ends it.
\<close>

fun cursor_loop :: "int \<Rightarrow> polygon list \<Rightarrow> error + polygon list" where
  "cursor_loop dep_id [] = Inr []"
| "cursor_loop dep_id (row # rows) =
     on_ok (loop_body dep_id row) (\<lambda>row'.
     on_ok (cursor_loop (dep_id + 1) rows) (\<lambda>rows'. Inr (row' # rows')))"

section \<open>The feature assembler, lines 191-213 of AnalyseGeoDepressions.py\<close>

text \<open>
  \<^verbatim>\<open>SpatialJoin_analysis(deepest_point, depression_polygons, None, field_mapping)\<close> with the
  engine's defaults: one output point for every target point, joined to the polygons that
  contain it, every mapped field taken from the first of them (merge rule First), NULL
  when there is none.
\<close>

definition SpatialJoin :: "point list \<Rightarrow> polygon list \<Rightarrow> joined_point list" where
  "SpatialJoin target join_features =
     map (\<lambda>p.
       case filter (\<lambda>q. location p \<in> set (covers (SHAPE q))) join_features of
         [] \<Rightarrow>
           \<lparr>dp_location = location p, dp_POCK_DEP = None, dp_DEP_ID = None,
            dp_MAJ_AXIS = None, dp_MIN_AXIS = None, dp_ECC = None, dp_AZIMUTH = None,
            dp_THIN_RAT = None, dp_AREA_M = None, dp_PERIMETER = None,
            dp_MORP_CHAR = None\<rparr>
       | q # _ \<Rightarrow>
           \<lparr>dp_location = location p, dp_POCK_DEP = POCK_DEP q, dp_DEP_ID = DEP_ID q,
            dp_MAJ_AXIS = MAJ_AXIS q, dp_MIN_AXIS = MIN_AXIS q, dp_ECC = ECC q,
            dp_AZIMUTH = AZIMUTH q, dp_THIN_RAT = THIN_RAT q, dp_AREA_M = AREA_M q,
            dp_PERIMETER = PERIMETER q, dp_MORP_CHAR = MORP_CHAR q\<rparr>) target"

text \<open>
  \<^verbatim>\<open>DeleteIdentical_management(deepest_point, ["DEP_ID"])\<close>: of the points that share a
  \<open>DEP_ID\<close> the first stays. \<open>seen\<close> holds the values met so far.
\<close>

fun delete_identical :: "int option list \<Rightarrow> joined_point list \<Rightarrow> joined_point list" where
  "delete_identical seen [] = []"
| "delete_identical seen (p # ps) =
     (if dp_DEP_ID p \<in> set seen then delete_identical seen ps
      else p # delete_identical (dp_DEP_ID p # seen) ps)"

definition DeleteIdentical :: "joined_point list \<Rightarrow> joined_point list" where
  "DeleteIdentical ps = delete_identical [] ps"

text \<open>\<^verbatim>\<open>FeatureToPoint_management(depression_polygons, None, "INSIDE")\<close>.\<close>

definition FeatureToPoint :: "polygon list \<Rightarrow> centroid_point list" where
  "FeatureToPoint ps =
     map (\<lambda>q. attributes.extend (attributes.truncate q) \<lparr>POINT = labelPoint (SHAPE q)\<rparr>) ps"

section \<open>The run of AnalyseGeoDepressions.py\<close>

text \<open>
  Lines 103-225. A run ends in an exception, reported by one of the handlers of lines
  261-281 with nothing saved, or saves the three outputs \<open>Depression_Polygons\<close>,
  \<open>Depression_Deepest_Point\<close> and \<open>Depression_Centroid\<close>.
  A failure inside one of the engine's own tools is outside the model.
\<close>

definition analyse ::
  "engine \<Rightarrow> raster_dataset \<Rightarrow> polygon list
     \<Rightarrow> error + (polygon list \<times> joined_point list \<times> centroid_point list)" where
  "analyse eng bathy_dataset depression_polygons =
     (if maximum bathy_dataset > 0 then Inl NotNegative
      else if CheckExtension eng \<noteq> ''Available'' then Inl LicenseError
      else
        let deepest = deepest_point eng bathy_dataset depression_polygons;
            cell_size = meanCellWidth bathy_dataset;
            tolerance = cell_size * 3;
            smoothed = SmoothPolygon eng depression_polygons tolerance
        in on_ok (cursor_loop 1 smoothed) (\<lambda>polygons.
             Inr (polygons,
                  DeleteIdentical (SpatialJoin deepest polygons),
                  FeatureToPoint polygons)))"

section \<open>The size filter of IdentifyGeoDepressions.py, lines 82-96\<close>

text \<open>
  \<^verbatim>\<open>GetCount_management\<close> returns a \<^verbatim>\<open>Result\<close> object whose output is the count; it is
  not a number. A Python 2 value here is a number or such an object.
\<close>

datatype pyvalue = PyNum pynum | PyResult nat

definition GetCount :: "polygon list \<Rightarrow> pyvalue" where
  "GetCount layer = PyResult (length layer)"

text \<open>
  \<^verbatim>\<open>v < n\<close> for a number \<open>n\<close> in Python 2. Two numbers compare by value. An object of a
  class without comparison methods is ordered against a number by the default
  comparison, which puts every number before every other object: such an object is
  never less than a number.
\<close>

definition py2_less_number :: "pyvalue \<Rightarrow> pynum \<Rightarrow> bool" where
  "py2_less_number v n = (case v of PyNum a \<Rightarrow> py_lt a n | PyResult _ \<Rightarrow> False)"

text \<open>
  Lines 83-89: \<open>AREA_M\<close> is calculated from the geometry and the layer keeps the rows of
  the expression \<^verbatim>\<open>AREA_M >= min_area AND AREA_M <= max_area\<close>.
\<close>

definition size_filter :: "real \<Rightarrow> int \<Rightarrow> polygon list \<Rightarrow> polygon list" where
  "size_filter cell_size max_area depression_polygons =
     (let min_area = (cell_size * 2) ^ 2;
          calculated = map (\<lambda>p. p\<lparr>AREA_M := Some (area (SHAPE p))\<rparr>) depression_polygons
      in filter (\<lambda>p. case AREA_M p of
                        None \<Rightarrow> False
                      | Some a \<Rightarrow> a \<ge> min_area \<and> a \<le> real_of_int max_area) calculated)"

text \<open>
  The run, lines 53-121. \<open>depression_polygons\<close> is what lines 71-78 (fill, minus,
  reclassify, raster to polygon) hand over; \<open>depth_join\<close> stands for lines 98-121, the
  engine's zonal statistics and spatial join on the filtered layer.
\<close>

definition identify ::
  "real \<Rightarrow> string \<Rightarrow> real \<Rightarrow> int \<Rightarrow> polygon list
     \<Rightarrow> (polygon list \<Rightarrow> error + polygon list) \<Rightarrow> error + polygon list" where
  "identify bathy_maximum check_extension cell_size max_area depression_polygons depth_join =
     (if bathy_maximum > 0 then Inl NotNegative
      else if check_extension \<noteq> ''Available'' then Inl LicenseError
      else
        let layer = size_filter cell_size max_area depression_polygons;
            feature_count = GetCount layer
        in if py2_less_number feature_count (PInt 1) then Inl NoFeatures
           else depth_join layer)"

section \<open>An example run\<close>

text \<open>
  A raster of four cells and two polygons. Polygon A holds the cells \<open>(0,0)\<close>, \<open>(0,1)\<close>
  and \<open>(0,2)\<close> of elevations -10, -5 and -10; polygon B holds the cell \<open>(5,5)\<close> of
  elevation -20. The engine of the example answers the zonal statistics of these two
  zones and smooths nothing.
\<close>

definition example_bathy :: raster_dataset where
  "example_bathy =
     \<lparr>maximum = - 5, meanCellWidth = 1,
      cells = [(0, 0), (0, 1), (0, 2), (5, 5)],
      cell_values = (\<lambda>c. if c = (0, 0) then Some (- 10) else if c = (0, 1) then Some (- 5)
                          else if c = (0, 2) then Some (- 10)
                          else if c = (5, 5) then Some (- 20) else None)\<rparr>"

definition example_engine :: engine where
  "example_engine =
     \<lparr>CheckExtension = ''Available'',
      ZonalStatistics = (\<lambda>polys r s c.
         if c = (0, 0) \<or> c = (0, 1) \<or> c = (0, 2)
         then Some (case s of MINIMUM \<Rightarrow> - 10 | MAXIMUM \<Rightarrow> - 5)
         else if c = (5, 5) then Some (- 20) else None),
      SmoothPolygon = (\<lambda>polys tolerance. polys)\<rparr>"

definition example_polygon :: "shape \<Rightarrow> pynum \<Rightarrow> polygon" where
  "example_polygon s depth =
     \<lparr>DEP_ID = None, AREA_M = None, PERIMETER = None, MAJ_AXIS = None, MIN_AXIS = None,
      ECC = None, AZIMUTH = None, THIN_RAT = None, MORP_CHAR = None, DIDP_RAT = None,
      POCK_DEP = Some depth, SHAPE = s\<rparr>"

definition shape_A :: shape where
  "shape_A = \<lparr>area = 4, length_s = 8,
              hullRectangle = map (\<lambda>v. Num (PFloat v)) [0, 0, 0, 2, 2, 2, 2, 0],
              covers = [(0, 0), (0, 1), (0, 2)], labelPoint = (1, 1)\<rparr>"

definition shape_B :: shape where
  "shape_B = \<lparr>area = 2, length_s = 6,
              hullRectangle = map (\<lambda>v. Num (PFloat v)) [5, 5, 5, 6, 7, 6, 7, 5],
              covers = [(5, 5)], labelPoint = (6, 5.5)\<rparr>"

text \<open>
  An engine like that of the example, but whose smoothing moves the boundary of a polygon
  so that the cells \<open>(0,0)\<close> and \<open>(0,2)\<close> are no longer inside it.
\<close>

definition shrinking_engine :: engine where
  "shrinking_engine =
     example_engine\<lparr>SmoothPolygon := (\<lambda>polys tolerance.
        map (\<lambda>q. q\<lparr>SHAPE := (SHAPE q)\<lparr>covers :=
               filter (\<lambda>c. c \<noteq> (0, 0) \<and> c \<noteq> (0, 2)) (covers (SHAPE q))\<rparr>\<rparr>) polys)\<rparr>"

section \<open>Properties of the geometry primitives\<close>

text \<open>
  The angle of \<open>atan2\<close> is the polar angle of the point: with \<open>r = hypot x y\<close>, the point
  \<open>(x, y)\<close> is \<open>(r cos \<theta>, r sin \<theta>)\<close> for \<open>\<theta> = atan2 y x\<close>.
\<close>

lemma sqrt_one_plus_quotient:
  assumes "x \<noteq> 0"
  shows "sqrt (1 + (y / x)\<^sup>2) = sqrt (x\<^sup>2 + y\<^sup>2) / \<bar>x\<bar>"
proof -
  have "1 + (y / x)\<^sup>2 = (x\<^sup>2 + y\<^sup>2) / x\<^sup>2"
    using assms by (simp add: field_simps power2_eq_square)
  then show ?thesis by (simp add: real_sqrt_divide)
qed

lemma atan2_polar:
  "hypot (coord_float x) (coord_float y) * cos (atan2 y x) = coord_float x
   \<and> hypot (coord_float x) (coord_float y) * sin (atan2 y x) = coord_float y"
proof -
  let ?x = "coord_float x" and ?y = "coord_float y"
  have r: "?x \<noteq> 0 \<Longrightarrow> sqrt (?x\<^sup>2 + ?y\<^sup>2) \<noteq> 0"
    by (simp add: sum_power2_eq_zero_iff)
  consider "0 < ?x" | "?x < 0" "0 < ?y \<or> (?y = 0 \<and> y \<noteq> NegZero)"
    | "?x < 0" "\<not> (0 < ?y \<or> (?y = 0 \<and> y \<noteq> NegZero))" | "?x = 0" by linarith
  then show ?thesis
  proof cases
    case 1
    then show ?thesis
      using r by (simp add: atan2_def Let_def hypot_def cos_arctan sin_arctan
          sqrt_one_plus_quotient)
  next
    case 2
    then show ?thesis
      using r by (auto simp add: atan2_def Let_def hypot_def cos_arctan sin_arctan
          sqrt_one_plus_quotient)
  next
    case 3
    then show ?thesis
      using r by (auto simp add: atan2_def Let_def hypot_def cos_arctan sin_arctan
          sqrt_one_plus_quotient cos_diff sin_diff)
  next
    case 4
    then show ?thesis
      by (auto simp add: atan2_def Let_def hypot_def)
  qed
qed
















text \<open>
  Claim C3. The label depends on the two arguments only, through fixed thresholds:
  \<open>IRREGULAR\<close> when the thinness is below 0.5 or the ratio above 100, tested first;
  otherwise \<open>SEMI_REGULAR\<close> when the thinness is below 0.75; otherwise \<open>REGULAR\<close>. The
  three labels differ, and the four examples of the specification come out as stated.
\<close>

theorem shape_descriptor_thresholds:
  "shape_descriptor t d =
     (if py_float t < 0.5 \<or> py_float d > 100 then IRREGULAR
      else if py_float t < 0.75 then SEMI_REGULAR
      else REGULAR)
   \<and> IRREGULAR \<noteq> SEMI_REGULAR \<and> IRREGULAR \<noteq> REGULAR \<and> SEMI_REGULAR \<noteq> REGULAR
   \<and> shape_descriptor (PFloat 0.4) d = IRREGULAR
   \<and> shape_descriptor (PFloat 0.6) (PInt 50) = SEMI_REGULAR
   \<and> shape_descriptor (PFloat 0.9) (PInt 10) = REGULAR
   \<and> shape_descriptor (PFloat 0.9) (PInt 150) = IRREGULAR"
  by (simp add: shape_descriptor_def py_lt_def py_gt_def
      IRREGULAR_def SEMI_REGULAR_def REGULAR_def)

theorem shape_descriptor_thresholds_witness:
  "shape_descriptor (PFloat 0.7) (PFloat 100) = SEMI_REGULAR
   \<and> shape_descriptor (PFloat 0.75) (PFloat 100) = REGULAR
   \<and> shape_descriptor (PFloat 0.5) (PFloat 100.5) = IRREGULAR"
  using shape_descriptor_thresholds[of "PFloat 0.7" "PFloat 100"]
    shape_descriptor_thresholds[of "PFloat 0.75" "PFloat 100"]
    shape_descriptor_thresholds[of "PFloat 0.5" "PFloat 100.5"]
  by simp

text \<open>
  Claim C9. With two integer arguments the division in \<open>thinness_ratio\<close> and in
  \<open>diameter_depth_ratio\<close> is floor division: for integers \<open>0 \<le> area < perimeter\<^sup>2\<close>,
  \<open>0 < perimeter\<close>, the thinness ratio is exactly 0.0, also where the real quotient is
  not 0. The real-valued formulas \<open>4\<pi>\<cdot>area / perimeter\<^sup>2\<close> and \<open>|diameter / depth|\<close> are
  what the functions return as soon as one argument is a float.
\<close>

theorem integer_arguments_floor_division:
  "thinness_ratio (PInt a) (PInt p) =
     (if p = 0 then Inl ZeroDivisionError
      else Inr (PFloat (4 * pi * real_of_int (a div p\<^sup>2))))
   \<and> diameter_depth_ratio (PInt dia) (PInt dep) =
       (if dep = 0 then Inl ZeroDivisionError else Inr (PInt \<bar>dia div dep\<bar>))
   \<and> (0 \<le> a \<and> 0 < p \<and> a < p\<^sup>2 \<longrightarrow> thinness_ratio (PInt a) (PInt p) = Inr (PFloat 0))
   \<and> (0 < a \<and> 0 < p \<and> a < p\<^sup>2 \<longrightarrow> 4 * pi * real_of_int a / (real_of_int p)\<^sup>2 \<noteq> 0)
   \<and> thinness_ratio (PFloat x) n =
       (if py_float n = 0 then Inl ZeroDivisionError
        else Inr (PFloat (4 * pi * x / (py_float n)\<^sup>2)))
   \<and> thinness_ratio n (PFloat x) =
       (if x = 0 then Inl ZeroDivisionError
        else Inr (PFloat (4 * pi * py_float n / x\<^sup>2)))
   \<and> diameter_depth_ratio (PFloat x) n =
       (if py_float n = 0 then Inl ZeroDivisionError
        else Inr (PFloat \<bar>x / py_float n\<bar>))
   \<and> diameter_depth_ratio n (PFloat x) =
       (if x = 0 then Inl ZeroDivisionError
        else Inr (PFloat \<bar>py_float n / x\<bar>))"
  by (cases n) (simp_all add: thinness_ratio_def diameter_depth_ratio_def)

theorem integer_arguments_floor_division_witness:
  "thinness_ratio (PInt 3) (PInt 2) = Inr (PFloat 0)
   \<and> 4 * pi * real_of_int 3 / (real_of_int 2)\<^sup>2 \<noteq> 0
   \<and> thinness_ratio (PFloat 3) (PInt 2) = Inr (PFloat (4 * pi * 3 / 2\<^sup>2))
   \<and> diameter_depth_ratio (PInt 7) (PInt (- 2)) = Inr (PInt 4)
   \<and> diameter_depth_ratio (PFloat 7) (PInt (- 2)) = Inr (PFloat \<bar>7 / - 2\<bar>)"
  using integer_arguments_floor_division[of 3 2 7 "- 2" 3 "PInt 2"]
    integer_arguments_floor_division[of 3 2 7 "- 2" 7 "PInt (- 2)"]
  by simp

section \<open>Properties of the depth locator\<close>

lemma depression_depth_Some:
  "depression_depth zonal_min zonal_max bathy c = Some v \<longleftrightarrow>
     (\<exists>e hi lo. bathy c = Some e \<and> zonal_max c = Some hi \<and> zonal_min c = Some lo
        \<and> \<bar>\<bar>hi - e\<bar> - \<bar>hi - lo\<bar>\<bar> < 0.001 \<and> v = \<bar>hi - lo\<bar>)"
  by (cases "bathy c"; cases "zonal_max c"; cases "zonal_min c")
    (auto simp: depression_depth_def Con_def raster_less_def raster_abs_def raster_minus_def
      split: bool.splits)

lemma RasterToPoint_set:
  "p \<in> set (RasterToPoint cs r) \<longleftrightarrow>
     (\<exists>c v. c \<in> set cs \<and> r c = Some v \<and> p = \<lparr>location = c, GRID_CODE = v, DEPTH = None\<rparr>)"
  unfolding RasterToPoint_def
  by (induction cs) (auto simp: List.map_filter_simps split: option.splits)

lemma extracted_points_set:
  "p \<in> set (ExtractMultiValuesToPoints (RasterToPoint cs r) b) \<longleftrightarrow>
     (\<exists>c v. c \<in> set cs \<and> r c = Some v \<and> p = \<lparr>location = c, GRID_CODE = v, DEPTH = b c\<rparr>)"
proof
  assume "p \<in> set (ExtractMultiValuesToPoints (RasterToPoint cs r) b)"
  then obtain x where "x \<in> set (RasterToPoint cs r)" "p = x\<lparr>DEPTH := b (location x)\<rparr>"
    by (auto simp: ExtractMultiValuesToPoints_def)
  then show "\<exists>c v. c \<in> set cs \<and> r c = Some v
      \<and> p = \<lparr>location = c, GRID_CODE = v, DEPTH = b c\<rparr>"
    by (auto simp: RasterToPoint_set)
next
  assume "\<exists>c v. c \<in> set cs \<and> r c = Some v
      \<and> p = \<lparr>location = c, GRID_CODE = v, DEPTH = b c\<rparr>"
  then obtain c v where c: "c \<in> set cs" "r c = Some v"
    and p: "p = \<lparr>location = c, GRID_CODE = v, DEPTH = b c\<rparr>"
    by blast
  let ?x = "\<lparr>location = c, GRID_CODE = v, DEPTH = None\<rparr>"
  have "?x \<in> set (RasterToPoint cs r)"
    unfolding RasterToPoint_set using c by blast
  then have "?x\<lparr>DEPTH := b (location ?x)\<rparr> \<in> set (ExtractMultiValuesToPoints (RasterToPoint cs r) b)"
    unfolding ExtractMultiValuesToPoints_def set_map by (rule imageI)
  then show "p \<in> set (ExtractMultiValuesToPoints (RasterToPoint cs r) b)"
    using p by simp
qed

lemma within_tolerance:
  fixes e hi lo :: real
  assumes "lo \<le> e" "e \<le> hi"
  shows "\<bar>\<bar>hi - e\<bar> - \<bar>hi - lo\<bar>\<bar> < 0.001 \<longleftrightarrow> e - lo < 0.001"
  using assms by auto

text \<open>
  Claim C4, as amended. The located points are exactly the cells of the raster that hold
  an elevation \<open>e\<close> and zonal statistics \<open>hi\<close> and \<open>lo\<close> with
  \<open>| |hi - e| - |hi - lo| | < 0.001\<close> (the outer absolute value is the code's); for an
  elevation between the zonal extremes these are the cells less than 0.001 above the
  zonal minimum. The point of such a cell carries the elevation of the bathymetry raster
  in \<open>DEPTH\<close> and the zonal range \<open>|hi - lo|\<close> in \<open>GRID_CODE\<close>.
\<close>

theorem deepest_point_selection:
  "(p \<in> set (deepest_point eng bathy_dataset depression_polygons) \<longleftrightarrow>
     (\<exists>c e hi lo. c \<in> set (cells bathy_dataset)
        \<and> cell_values bathy_dataset c = Some e
        \<and> ZonalStatistics eng depression_polygons (cell_values bathy_dataset) MAXIMUM c = Some hi
        \<and> ZonalStatistics eng depression_polygons (cell_values bathy_dataset) MINIMUM c = Some lo
        \<and> \<bar>\<bar>hi - e\<bar> - \<bar>hi - lo\<bar>\<bar> < 0.001
        \<and> p = \<lparr>location = c, GRID_CODE = \<bar>hi - lo\<bar>, DEPTH = Some e\<rparr>))
   \<and> (\<forall>e hi lo :: real. lo \<le> e \<and> e \<le> hi \<longrightarrow>
         (\<bar>\<bar>hi - e\<bar> - \<bar>hi - lo\<bar>\<bar> < 0.001 \<longleftrightarrow> e - lo < 0.001))"
proof -
  let ?zmin = "ZonalStatistics eng depression_polygons (cell_values bathy_dataset) MINIMUM"
  let ?zmax = "ZonalStatistics eng depression_polygons (cell_values bathy_dataset) MAXIMUM"
  let ?depth = "depression_depth ?zmin ?zmax (cell_values bathy_dataset)"
  have "p \<in> set (deepest_point eng bathy_dataset depression_polygons) \<longleftrightarrow>
      (\<exists>c v. c \<in> set (cells bathy_dataset) \<and> ?depth c = Some v
          \<and> p = \<lparr>location = c, GRID_CODE = v, DEPTH = cell_values bathy_dataset c\<rparr>)"
    by (simp add: deepest_point_def Let_def extracted_points_set)
  also have "\<dots> \<longleftrightarrow>
     (\<exists>c e hi lo. c \<in> set (cells bathy_dataset)
        \<and> cell_values bathy_dataset c = Some e \<and> ?zmax c = Some hi \<and> ?zmin c = Some lo
        \<and> \<bar>\<bar>hi - e\<bar> - \<bar>hi - lo\<bar>\<bar> < 0.001
        \<and> p = \<lparr>location = c, GRID_CODE = \<bar>hi - lo\<bar>, DEPTH = Some e\<rparr>)"
    unfolding depression_depth_Some by (intro iffI; clarsimp) blast
  finally show ?thesis using within_tolerance by blast
qed

theorem deepest_point_selection_witness:
  "\<lparr>location = (0, 0), GRID_CODE = \<bar>- 5 - - 10\<bar>, DEPTH = Some (- 10)\<rparr>
     \<in> set (deepest_point example_engine example_bathy [])
   \<and> ((- 10 :: real) \<le> - 10 \<and> (- 10 :: real) \<le> - 5)
   \<and> (\<bar>\<bar>- 5 - - 10\<bar> - \<bar>- 5 - - 10\<bar>\<bar> < (0.001 :: real) \<longleftrightarrow> - 10 - - 10 < (0.001 :: real))"
proof -
  have "\<exists>c e hi lo. c \<in> set (cells example_bathy)
        \<and> cell_values example_bathy c = Some e
        \<and> ZonalStatistics example_engine [] (cell_values example_bathy) MAXIMUM c = Some hi
        \<and> ZonalStatistics example_engine [] (cell_values example_bathy) MINIMUM c = Some lo
        \<and> \<bar>\<bar>hi - e\<bar> - \<bar>hi - lo\<bar>\<bar> < 0.001
        \<and> \<lparr>location = (0, 0), GRID_CODE = \<bar>- 5 - - 10\<bar>, DEPTH = Some (- 10)\<rparr>
            = \<lparr>location = c, GRID_CODE = \<bar>hi - lo\<bar>, DEPTH = Some e\<rparr>"
    by (rule exI[of _ "(0, 0)"], rule exI[of _ "- 10"], rule exI[of _ "- 5"],
        rule exI[of _ "- 10"]) (simp add: example_bathy_def example_engine_def)
  then show ?thesis
    using deepest_point_selection[of
        "\<lparr>location = (0, 0), GRID_CODE = \<bar>- 5 - - 10\<bar>, DEPTH = Some (- 10)\<rparr>"
        example_engine example_bathy "[]"]
    by simp
qed

text \<open>
  Claim C4 as stated fails: in the example the cell \<open>(0,1)\<close> of elevation -5, in a zone
  of minimum -10 and maximum -5, satisfies the stated inequality without the outer
  absolute value, and the code does not make it a deepest point.
\<close>

theorem deepest_point_counterexample:
  "cell_values example_bathy (0, 1) = Some (- 5)
   \<and> ZonalStatistics example_engine [] (cell_values example_bathy) MAXIMUM (0, 1) = Some (- 5)
   \<and> ZonalStatistics example_engine [] (cell_values example_bathy) MINIMUM (0, 1) = Some (- 10)
   \<and> spec_deepest (- 5) (- 10) (- 5)
   \<and> map location (deepest_point example_engine example_bathy []) = [(0, 0), (0, 2), (5, 5)]"
  by (simp add: deepest_point_def example_engine_def example_bathy_def depression_depth_def
      Con_def raster_less_def raster_abs_def raster_minus_def RasterToPoint_def
      ExtractMultiValuesToPoints_def List.map_filter_def spec_deepest_def)

section \<open>Properties of the cursor loop\<close>

lemma on_ok_Inr: "on_ok r f = Inr y \<longleftrightarrow> (\<exists>v. r = Inr v \<and> f v = Inr y)"
  by (cases r) (simp_all add: on_ok_def)

lemma on_ok_Inl: "on_ok (Inl e) f = Inl e"
  by (simp add: on_ok_def)

lemma updateRow_Inr: "updateRow r = Inr r' \<Longrightarrow> r' = r"
  by (auto simp: updateRow_def split: option.splits if_splits)

lemma loop_body_Inr:
  assumes "loop_body n row = Inr r"
  shows "DEP_ID r = Some n" and "SHAPE r = SHAPE row" and "POCK_DEP r = POCK_DEP row"
  using assms
  by (auto simp: loop_body_def Let_def on_ok_Inr split: if_splits dest!: updateRow_Inr)

lemma cursor_loop_length: "cursor_loop n rows = Inr out \<Longrightarrow> length out = length rows"
  by (induction rows arbitrary: n out) (auto simp: on_ok_Inr)

lemma cursor_loop_ids:
  "cursor_loop n rows = Inr out \<Longrightarrow> map DEP_ID out = map Some [n .. n + int (length rows) - 1]"
proof (induction rows arbitrary: n out)
  case Nil
  then show ?case by simp
next
  case (Cons row rows)
  then obtain r rs where r: "loop_body n row = Inr r"
    and rs: "cursor_loop (n + 1) rows = Inr rs" and out: "out = r # rs"
    by (auto simp: on_ok_Inr)
  have "map DEP_ID rs = map Some [n + 1 .. n + 1 + int (length rows) - 1]"
    using Cons.IH[OF rs] .
  moreover have "[n .. n + int (length (row # rows)) - 1]
      = n # [n + 1 .. n + 1 + int (length rows) - 1]"
    by (subst upto_rec1) (auto simp: algebra_simps)
  ultimately show ?case using loop_body_Inr(1)[OF r] out by simp
qed

lemma cursor_loop_shapes: "cursor_loop n rows = Inr out \<Longrightarrow> map SHAPE out = map SHAPE rows"
  by (induction rows arbitrary: n out) (auto simp: on_ok_Inr dest: loop_body_Inr(2))

text \<open>The first row whose body raises ends the loop with that exception.\<close>

lemma cursor_loop_first_error:
  "cursor_loop n before = Inr done_rows \<Longrightarrow> loop_body (n + int (length before)) row = Inl e
     \<Longrightarrow> cursor_loop n (before @ row # after) = Inl e"
proof (induction before arbitrary: n done_rows)
  case Nil
  then show ?case by (simp add: on_ok_Inl)
next
  case (Cons b bs)
  then obtain r rs where r: "loop_body n b = Inr r" and rs: "cursor_loop (n + 1) bs = Inr rs"
    by (auto simp: on_ok_Inr)
  have "loop_body (n + 1 + int (length bs)) row = Inl e"
    using Cons.prems(2) by (simp add: algebra_simps)
  from Cons.IH[OF rs this] show ?case
    using r by (simp add: on_ok_def)
qed

lemma eccentricity_of_axes:
  assumes "0 \<le> b" "b \<le> a"
  shows "eccentricity (PFloat a) (PFloat b) = Inl ZeroDivisionError
       \<or> (\<exists>e. eccentricity (PFloat a) (PFloat b) = Inr e)"
proof (cases "a = 0")
  case True
  then show ?thesis by (simp add: eccentricity_def)
next
  case False
  have "b\<^sup>2 \<le> a\<^sup>2" using assms by (simp add: power_mono)
  then have "0 \<le> (a\<^sup>2 - b\<^sup>2) / a\<^sup>2" by simp
  then show ?thesis using False by (simp add: eccentricity_def math_sqrt_def)
qed

lemma thinness_ratio_cases:
  "thinness_ratio a p = Inl ZeroDivisionError \<or> (\<exists>t. thinness_ratio a p = Inr t)"
  by (cases a; cases p) (auto simp: thinness_ratio_def)

lemma diameter_depth_ratio_zero:
  "py_float depth = 0 \<Longrightarrow> diameter_depth_ratio diameter depth = Inl ZeroDivisionError"
  by (cases diameter; cases depth) (auto simp: diameter_depth_ratio_def)

lemma hypot_nonneg: "0 \<le> hypot x y"
  by (simp add: hypot_def)

lemma loop_body_zero_depth:
  assumes "POCK_DEP row = Some depth" "py_float depth = 0"
  shows "loop_body n row = Inl ZeroDivisionError \<or> loop_body n row = Inl ValueError"
proof (cases "length (hullRectangle (SHAPE row)) = 8")
  case False
  then show ?thesis by (simp add: loop_body_def Let_def)
next
  case True
  let ?hr = "hullRectangle (SHAPE row)"
  let ?d1 = "hypot (coord_float (?hr ! 0) - coord_float (?hr ! 2))
                   (coord_float (?hr ! 1) - coord_float (?hr ! 3))"
  let ?d2 = "hypot (coord_float (?hr ! 2) - coord_float (?hr ! 4))
                   (coord_float (?hr ! 3) - coord_float (?hr ! 5))"
  let ?min = "if ?d1 \<le> ?d2 then ?d1 else ?d2"
  let ?maj = "if ?d1 \<le> ?d2 then ?d2 else ?d1"
  have axes: "0 \<le> ?min" "?min \<le> ?maj"
    using hypot_nonneg by auto
  have dd: "diameter_depth_ratio v depth = Inl ZeroDivisionError" for v
    using assms(2) by (rule diameter_depth_ratio_zero)
  from eccentricity_of_axes[OF axes] thinness_ratio_cases[of "PFloat (area (SHAPE row))"
      "PFloat (length_s (SHAPE row))"]
  show ?thesis
    using True assms(1) dd
    by (auto simp: loop_body_def Let_def on_ok_def azimuth_def)
qed

lemma cursor_loop_zero_depth:
  assumes "row \<in> set rows" "POCK_DEP row = Some depth" "py_float depth = 0"
  shows "\<exists>e. cursor_loop n rows = Inl e"
  using assms(1)
proof (induction rows arbitrary: n)
  case Nil
  then show ?case by simp
next
  case (Cons r rs)
  show ?case
  proof (cases "loop_body n r")
    case (Inl e)
    then show ?thesis by (simp add: on_ok_def)
  next
    case (Inr r')
    then have "r \<noteq> row"
      using loop_body_zero_depth[OF assms(2,3), of n] by auto
    with Cons.prems have "row \<in> set rs" by auto
    from Cons.IH[OF this, of "n + 1"] obtain e where "cursor_loop (n + 1) rs = Inl e" ..
    with Inr show ?thesis by (simp add: on_ok_def)
  qed
qed

text \<open>
  Claim C1, as amended. If the depth joined onto some polygon is 0, the loop body raises
  at that polygon: \<^verbatim>\<open>ZeroDivisionError\<close>, or \<^verbatim>\<open>ValueError\<close> when its bounding rectangle
  does not unpack. Nothing catches the exception for the polygon alone, so the whole run
  ends in an error and saves no output, whatever the other polygons are; when the rows
  before it pass the loop, the run ends in the exception of that polygon.
\<close>

theorem zero_depth_ends_the_run:
  assumes "row \<in> set (SmoothPolygon eng depression_polygons (meanCellWidth bathy_dataset * 3))"
    and "POCK_DEP row = Some depth" and "py_float depth = 0"
  shows "(loop_body n row = Inl ZeroDivisionError \<or> loop_body n row = Inl ValueError)
       \<and> (\<exists>e. analyse eng bathy_dataset depression_polygons = Inl e)
       \<and> (\<forall>before after done_rows.
             maximum bathy_dataset \<le> 0 \<and> CheckExtension eng = ''Available''
             \<and> SmoothPolygon eng depression_polygons (meanCellWidth bathy_dataset * 3)
                 = before @ row # after
             \<and> cursor_loop 1 before = Inr done_rows
             \<longrightarrow> (\<exists>e. loop_body (1 + int (length before)) row = Inl e
                    \<and> analyse eng bathy_dataset depression_polygons = Inl e))"
proof -
  let ?smoothed = "SmoothPolygon eng depression_polygons (meanCellWidth bathy_dataset * 3)"
  obtain e where "cursor_loop 1 ?smoothed = Inl e"
    using cursor_loop_zero_depth[OF assms] by blast
  then have run: "\<exists>e. analyse eng bathy_dataset depression_polygons = Inl e"
    by (simp add: analyse_def Let_def on_ok_def)
  have "\<exists>e. loop_body (1 + int (length before)) row = Inl e
          \<and> analyse eng bathy_dataset depression_polygons = Inl e"
    if ok: "maximum bathy_dataset \<le> 0" "CheckExtension eng = ''Available''"
      and split: "?smoothed = before @ row # after"
      and before: "cursor_loop 1 before = Inr done_rows"
    for before after done_rows
  proof -
    obtain e where e: "loop_body (1 + int (length before)) row = Inl e"
      using loop_body_zero_depth[OF assms(2,3), of "1 + int (length before)"] by blast
    have "cursor_loop 1 ?smoothed = Inl e"
      unfolding split using before e by (rule cursor_loop_first_error)
    then have "analyse eng bathy_dataset depression_polygons = Inl e"
      using ok by (simp add: analyse_def Let_def on_ok_def)
    with e show ?thesis by blast
  qed
  then show ?thesis using run loop_body_zero_depth[OF assms(2,3), of n] by blast
qed

theorem zero_depth_ends_the_run_witness:
  "example_polygon shape_B (PFloat 0)
     \<in> set (SmoothPolygon example_engine
          [example_polygon shape_A (PFloat (- 3)), example_polygon shape_B (PFloat 0)]
          (meanCellWidth example_bathy * 3))
   \<and> POCK_DEP (example_polygon shape_B (PFloat 0)) = Some (PFloat 0)
   \<and> (\<exists>done_rows. cursor_loop 1 [example_polygon shape_A (PFloat (- 3))] = Inr done_rows)
   \<and> loop_body 2 (example_polygon shape_B (PFloat 0)) = Inl ZeroDivisionError
   \<and> analyse example_engine example_bathy
        [example_polygon shape_A (PFloat (- 3)), example_polygon shape_B (PFloat 0)]
       = Inl ZeroDivisionError"
proof -
  let ?A = "example_polygon shape_A (PFloat (- 3))"
  let ?B = "example_polygon shape_B (PFloat 0)"
  have a: "?B \<in> set (SmoothPolygon example_engine [?A, ?B] (meanCellWidth example_bathy * 3))"
    by (simp add: example_engine_def)
  have b: "POCK_DEP ?B = Some (PFloat 0)"
    by (simp add: example_polygon_def)
  have c: "py_float (PFloat 0) = 0" by simp
  have checks: "maximum example_bathy \<le> 0" "CheckExtension example_engine = ''Available''"
    "SmoothPolygon example_engine [?A, ?B] (meanCellWidth example_bathy * 3) = [?A] @ ?B # []"
    by (simp_all add: example_bathy_def example_engine_def)
  obtain done_rows where before: "cursor_loop 1 [?A] = Inr done_rows"
    by (simp add: loop_body_def example_polygon_def shape_A_def hypot_def on_ok_def
      eccentricity_def math_sqrt_def azimuth_def thinness_ratio_def diameter_depth_ratio_def
      updateRow_def Let_def)
  have body: "loop_body 2 ?B = Inl ZeroDivisionError"
    by (simp add: loop_body_def example_polygon_def shape_B_def hypot_def on_ok_def
      eccentricity_def math_sqrt_def azimuth_def thinness_ratio_def diameter_depth_ratio_def
      updateRow_def Let_def)
  from zero_depth_ends_the_run[OF a b c, of 2, THEN conjunct2, THEN conjunct2,
      rule_format, of "[?A]" "[]" done_rows] checks before
  have "\<exists>e. loop_body (1 + int (length [?A])) ?B = Inl e
      \<and> analyse example_engine example_bathy [?A, ?B] = Inl e"
    by blast
  then have "analyse example_engine example_bathy [?A, ?B] = Inl ZeroDivisionError"
    using body by simp
  then show ?thesis using a b before body by blast
qed

text \<open>
  Claim C1 as stated fails: in the example run polygon A, of depth -3, is characterised
  by the loop body and a run of polygon A alone succeeds, but with polygon B of depth 0
  in the same run the run ends in \<^verbatim>\<open>ZeroDivisionError\<close> and has no output at all.
\<close>

theorem zero_depth_counterexample:
  "(\<exists>r. loop_body 1 (example_polygon shape_A (PFloat (- 3))) = Inr r)
   \<and> (\<exists>out. analyse example_engine example_bathy [example_polygon shape_A (PFloat (- 3))]
         = Inr out)
   \<and> analyse example_engine example_bathy
        [example_polygon shape_A (PFloat (- 3)), example_polygon shape_B (PFloat 0)]
       = Inl ZeroDivisionError"
  by (simp add: analyse_def example_engine_def example_bathy_def loop_body_def
      example_polygon_def shape_A_def shape_B_def hypot_def on_ok_def eccentricity_def
      math_sqrt_def azimuth_def thinness_ratio_def diameter_depth_ratio_def updateRow_def
      Let_def)

section \<open>Properties of the feature assembler\<close>

lemma delete_identical_keys:
  "distinct (map dp_DEP_ID (delete_identical seen ps)) \<and>
   set (map dp_DEP_ID (delete_identical seen ps)) = set (map dp_DEP_ID ps) - set seen"
  by (induction seen ps rule: delete_identical.induct) auto

lemma delete_identical_subset: "set (delete_identical seen ps) \<subseteq> set ps"
  by (induction seen ps rule: delete_identical.induct) auto

text \<open>A point that stays is the first of the input that has its \<open>DEP_ID\<close>.\<close>

lemma delete_identical_first:
  "p \<in> set (delete_identical seen ps) \<Longrightarrow> find (\<lambda>q. dp_DEP_ID q = dp_DEP_ID p) ps = Some p"
proof (induction seen ps rule: delete_identical.induct)
  case (1 seen)
  then show ?case by simp
next
  case (2 seen x ps)
  show ?case
  proof (cases "p = x")
    case True
    then show ?thesis by simp
  next
    case False
    let ?seen' = "if dp_DEP_ID x \<in> set seen then seen else dp_DEP_ID x # seen"
    have p: "p \<in> set (delete_identical ?seen' ps)"
      using "2.prems" False by (auto split: if_splits)
    then have "dp_DEP_ID p \<in> set (map dp_DEP_ID (delete_identical ?seen' ps))"
      by (simp only: set_map) (rule imageI)
    then have "dp_DEP_ID p \<notin> set ?seen'"
      using delete_identical_keys[of ?seen' ps] by blast
    then have "dp_DEP_ID x \<noteq> dp_DEP_ID p"
      by (auto split: if_splits)
    moreover have "find (\<lambda>q. dp_DEP_ID q = dp_DEP_ID p) ps = Some p"
      using "2.IH" p by (auto split: if_splits)
    ultimately show ?thesis by simp
  qed
qed

lemma FeatureToPoint_fields:
  "map DEP_ID (FeatureToPoint ps) = map DEP_ID ps
   \<and> map POINT (FeatureToPoint ps) = map (\<lambda>q. labelPoint (SHAPE q)) ps"
  by (simp add: FeatureToPoint_def attributes.defs)

lemma SpatialJoin_source:
  assumes "j \<in> set (SpatialJoin target polys)" "dp_DEP_ID j = Some k"
  shows "\<exists>q \<in> set polys. DEP_ID q = Some k \<and> dp_location j \<in> set (covers (SHAPE q))"
proof -
  from assms(1) obtain p where p: "p \<in> set target" and
    j: "j = (case filter (\<lambda>q. location p \<in> set (covers (SHAPE q))) polys of
         [] \<Rightarrow>
           \<lparr>dp_location = location p, dp_POCK_DEP = None, dp_DEP_ID = None,
            dp_MAJ_AXIS = None, dp_MIN_AXIS = None, dp_ECC = None, dp_AZIMUTH = None,
            dp_THIN_RAT = None, dp_AREA_M = None, dp_PERIMETER = None,
            dp_MORP_CHAR = None\<rparr>
       | q # _ \<Rightarrow>
           \<lparr>dp_location = location p, dp_POCK_DEP = POCK_DEP q, dp_DEP_ID = DEP_ID q,
            dp_MAJ_AXIS = MAJ_AXIS q, dp_MIN_AXIS = MIN_AXIS q, dp_ECC = ECC q,
            dp_AZIMUTH = AZIMUTH q, dp_THIN_RAT = THIN_RAT q, dp_AREA_M = AREA_M q,
            dp_PERIMETER = PERIMETER q, dp_MORP_CHAR = MORP_CHAR q\<rparr>)"
    by (auto simp: SpatialJoin_def)
  show ?thesis
  proof (cases "filter (\<lambda>q. location p \<in> set (covers (SHAPE q))) polys")
    case Nil
    with j assms(2) show ?thesis by simp
  next
    case (Cons q qs)
    then have "q \<in> set (filter (\<lambda>q. location p \<in> set (covers (SHAPE q))) polys)" by simp
    then have "q \<in> set polys" "location p \<in> set (covers (SHAPE q))" by auto
    with j Cons assms(2) show ?thesis by auto
  qed
qed

text \<open>What the join gives a target point: the fields of the first polygon that contains it.\<close>

lemma first_of_filter:
  "i < length xs \<Longrightarrow> P (xs ! i) \<Longrightarrow> \<forall>j < i. \<not> P (xs ! j)
     \<Longrightarrow> \<exists>rest. filter P xs = xs ! i # rest"
proof (induction xs arbitrary: i)
  case Nil
  then show ?case by simp
next
  case (Cons x xs)
  show ?case
  proof (cases i)
    case 0
    with Cons.prems show ?thesis by simp
  next
    case (Suc k)
    with Cons.prems have "\<not> P x" by auto
    moreover have "\<exists>rest. filter P xs = xs ! k # rest"
      using Cons.prems Suc by (intro Cons.IH) auto
    ultimately show ?thesis using Suc by simp
  qed
qed

lemma SpatialJoin_member:
  assumes "p \<in> set target"
  shows "(case filter (\<lambda>q. location p \<in> set (covers (SHAPE q))) polys of
         [] \<Rightarrow>
           \<lparr>dp_location = location p, dp_POCK_DEP = None, dp_DEP_ID = None,
            dp_MAJ_AXIS = None, dp_MIN_AXIS = None, dp_ECC = None, dp_AZIMUTH = None,
            dp_THIN_RAT = None, dp_AREA_M = None, dp_PERIMETER = None,
            dp_MORP_CHAR = None\<rparr>
       | q # _ \<Rightarrow>
           \<lparr>dp_location = location p, dp_POCK_DEP = POCK_DEP q, dp_DEP_ID = DEP_ID q,
            dp_MAJ_AXIS = MAJ_AXIS q, dp_MIN_AXIS = MIN_AXIS q, dp_ECC = ECC q,
            dp_AZIMUTH = AZIMUTH q, dp_THIN_RAT = THIN_RAT q, dp_AREA_M = AREA_M q,
            dp_PERIMETER = PERIMETER q, dp_MORP_CHAR = MORP_CHAR q\<rparr>)
       \<in> set (SpatialJoin target polys)"
  using assms unfolding SpatialJoin_def set_map by (rule imageI)

lemma SpatialJoin_first:
  assumes "p \<in> set target" "i < length polys"
    and "location p \<in> set (covers (SHAPE (polys ! i)))"
    and "\<forall>j < i. location p \<notin> set (covers (SHAPE (polys ! j)))"
  shows "\<exists>j \<in> set (SpatialJoin target polys).
           dp_location j = location p \<and> dp_DEP_ID j = DEP_ID (polys ! i)"
proof -
  obtain rest where "filter (\<lambda>q. location p \<in> set (covers (SHAPE q))) polys = polys ! i # rest"
    using first_of_filter[of i polys "\<lambda>q. location p \<in> set (covers (SHAPE q))"] assms(2,3,4)
    by blast
  then show ?thesis
    using SpatialJoin_member[OF assms(1), of polys] by (intro bexI) auto
qed

lemma SpatialJoin_outside:
  assumes "p \<in> set target" "\<forall>q \<in> set polys. location p \<notin> set (covers (SHAPE q))"
  shows "\<exists>j \<in> set (SpatialJoin target polys). dp_location j = location p \<and> dp_DEP_ID j = None"
proof -
  have "filter (\<lambda>q. location p \<in> set (covers (SHAPE q))) polys = []"
    using assms(2) by (simp add: filter_empty_conv)
  then show ?thesis
    using SpatialJoin_member[OF assms(1), of polys] by (intro bexI) auto
qed

lemma SpatialJoin_null:
  assumes "j \<in> set (SpatialJoin target polys)" "\<forall>q \<in> set polys. DEP_ID q \<noteq> None"
  shows "dp_DEP_ID j = None \<longleftrightarrow> (\<forall>q \<in> set polys. dp_location j \<notin> set (covers (SHAPE q)))"
proof -
  from assms(1) obtain p where p: "p \<in> set target" and
    j: "j = (case filter (\<lambda>q. location p \<in> set (covers (SHAPE q))) polys of
         [] \<Rightarrow>
           \<lparr>dp_location = location p, dp_POCK_DEP = None, dp_DEP_ID = None,
            dp_MAJ_AXIS = None, dp_MIN_AXIS = None, dp_ECC = None, dp_AZIMUTH = None,
            dp_THIN_RAT = None, dp_AREA_M = None, dp_PERIMETER = None,
            dp_MORP_CHAR = None\<rparr>
       | q # _ \<Rightarrow>
           \<lparr>dp_location = location p, dp_POCK_DEP = POCK_DEP q, dp_DEP_ID = DEP_ID q,
            dp_MAJ_AXIS = MAJ_AXIS q, dp_MIN_AXIS = MIN_AXIS q, dp_ECC = ECC q,
            dp_AZIMUTH = AZIMUTH q, dp_THIN_RAT = THIN_RAT q, dp_AREA_M = AREA_M q,
            dp_PERIMETER = PERIMETER q, dp_MORP_CHAR = MORP_CHAR q\<rparr>)"
    by (auto simp: SpatialJoin_def)
  show ?thesis
  proof (cases "filter (\<lambda>q. location p \<in> set (covers (SHAPE q))) polys")
    case Nil
    then have "\<forall>q \<in> set polys. location p \<notin> set (covers (SHAPE q))"
      by (simp add: filter_empty_conv)
    with j Nil show ?thesis by simp
  next
    case (Cons q qs)
    then have "q \<in> set (filter (\<lambda>q. location p \<in> set (covers (SHAPE q))) polys)" by simp
    then have q: "q \<in> set polys" "location p \<in> set (covers (SHAPE q))" by auto
    then have "DEP_ID q \<noteq> None" using assms(2) by blast
    with j Cons q show ?thesis by auto
  qed
qed

text \<open>
  Claim C5, as amended. In every run that saves its outputs, the \<open>DEP_ID\<close> values of the
  output polygons are 1, 2, 3, ... in the order of the cursor, one for each polygon the
  loop was given and with that polygon's geometry. The deepest-point output has at most
  one point for a \<open>DEP_ID\<close>: each of its points is the first point of the spatial join
  with that value, and no value of the join is lost. A polygon and its centroid carry the
  same \<open>DEP_ID\<close>. A deepest point gets its \<open>DEP_ID\<close> from the spatial join with the
  smoothed polygons, not from the polygon it was located for: it carries the \<open>DEP_ID\<close> of
  the first output polygon that contains it, and none when no output polygon contains
  it. So an output polygon that contains a located point, first among the polygons, has
  a deepest point with its \<open>DEP_ID\<close> inside it, and a located point that smoothing left
  outside every polygon is saved without a \<open>DEP_ID\<close>.
\<close>

theorem dep_id_dense_and_shared:
  assumes "analyse eng bathy_dataset depression_polygons = Inr (polygons, deepest, centroids)"
  shows "map DEP_ID polygons = map Some [1 .. int (length polygons)]
       \<and> map SHAPE polygons
           = map SHAPE (SmoothPolygon eng depression_polygons (meanCellWidth bathy_dataset * 3))
       \<and> distinct (map dp_DEP_ID deepest)
       \<and> set (map dp_DEP_ID deepest)
           = set (map dp_DEP_ID
               (SpatialJoin (deepest_point eng bathy_dataset depression_polygons) polygons))
       \<and> (\<forall>d \<in> set deepest.
             find (\<lambda>j. dp_DEP_ID j = dp_DEP_ID d)
               (SpatialJoin (deepest_point eng bathy_dataset depression_polygons) polygons)
             = Some d)
       \<and> map DEP_ID centroids = map DEP_ID polygons
       \<and> map POINT centroids = map (\<lambda>q. labelPoint (SHAPE q)) polygons
       \<and> (\<forall>d \<in> set deepest. \<forall>k. dp_DEP_ID d = Some k \<longrightarrow>
             (\<exists>q \<in> set polygons. DEP_ID q = Some k \<and> dp_location d \<in> set (covers (SHAPE q))))
       \<and> (\<forall>d \<in> set deepest. dp_DEP_ID d = None \<longleftrightarrow>
             (\<forall>q \<in> set polygons. dp_location d \<notin> set (covers (SHAPE q))))
       \<and> (\<forall>p \<in> set (deepest_point eng bathy_dataset depression_polygons).
           \<forall>i < length polygons.
             location p \<in> set (covers (SHAPE (polygons ! i)))
             \<and> (\<forall>j < i. location p \<notin> set (covers (SHAPE (polygons ! j))))
             \<longrightarrow> (\<exists>d \<in> set deepest. dp_DEP_ID d = DEP_ID (polygons ! i)
                    \<and> DEP_ID (polygons ! i) = Some (int i + 1)
                    \<and> dp_location d \<in> set (covers (SHAPE (polygons ! i)))))
       \<and> (\<forall>p \<in> set (deepest_point eng bathy_dataset depression_polygons).
             (\<forall>q \<in> set polygons. location p \<notin> set (covers (SHAPE q)))
             \<longrightarrow> (\<exists>d \<in> set deepest. dp_DEP_ID d = None))"
proof -
  let ?smoothed = "SmoothPolygon eng depression_polygons (meanCellWidth bathy_dataset * 3)"
  let ?located = "deepest_point eng bathy_dataset depression_polygons"
  let ?joined = "SpatialJoin ?located polygons"
  from assms have loop: "cursor_loop 1 ?smoothed = Inr polygons"
    and deepest: "deepest = DeleteIdentical ?joined"
    and centroids: "centroids = FeatureToPoint polygons"
    by (auto simp: analyse_def Let_def on_ok_Inr split: if_splits)
  have shapes: "map SHAPE polygons = map SHAPE ?smoothed"
    using cursor_loop_shapes[OF loop] .
  have ids: "map DEP_ID polygons = map Some [1 .. int (length polygons)]"
    using cursor_loop_ids[OF loop] cursor_loop_length[OF loop] by simp
  have id_at: "DEP_ID (polygons ! i) = Some (int i + 1)" if "i < length polygons" for i
  proof -
    have "DEP_ID (polygons ! i) = map DEP_ID polygons ! i"
      using that by simp
    also have "\<dots> = Some ([1 .. int (length polygons)] ! i)"
      unfolding ids using that by simp
    also have "[1 .. int (length polygons)] ! i = 1 + int i"
      using that by (intro nth_upto) simp
    finally show ?thesis by simp
  qed
  have not_null: "\<forall>q \<in> set polygons. DEP_ID q \<noteq> None"
    using id_at by (auto simp: in_set_conv_nth)
  have keys: "distinct (map dp_DEP_ID deepest)"
    "set (map dp_DEP_ID deepest) = set (map dp_DEP_ID ?joined)"
    using delete_identical_keys[of "[]" ?joined] by (simp_all add: deepest DeleteIdentical_def)
  have sub: "set deepest \<subseteq> set ?joined"
    using delete_identical_subset[of "[]" ?joined] by (simp add: deepest DeleteIdentical_def)
  have first: "\<forall>d \<in> set deepest. find (\<lambda>j. dp_DEP_ID j = dp_DEP_ID d) ?joined = Some d"
    using delete_identical_first[of _ "[]" ?joined] by (simp add: deepest DeleteIdentical_def)
  have inside: "\<forall>d \<in> set deepest. \<forall>k. dp_DEP_ID d = Some k \<longrightarrow>
      (\<exists>q \<in> set polygons. DEP_ID q = Some k \<and> dp_location d \<in> set (covers (SHAPE q)))"
    using sub SpatialJoin_source by blast
  have null: "\<forall>d \<in> set deepest. dp_DEP_ID d = None \<longleftrightarrow>
      (\<forall>q \<in> set polygons. dp_location d \<notin> set (covers (SHAPE q)))"
    using sub SpatialJoin_null[OF _ not_null] by blast
  have kept: "\<exists>d \<in> set deepest. dp_DEP_ID d = k" if "j \<in> set ?joined" "dp_DEP_ID j = k" for j k
  proof -
    have "k \<in> set (map dp_DEP_ID ?joined)"
      using that by (simp only: set_map) blast
    then have "k \<in> set (map dp_DEP_ID deepest)"
      using keys(2) by simp
    then show ?thesis by auto
  qed
  have own: "\<exists>d \<in> set deepest. dp_DEP_ID d = DEP_ID (polygons ! i)
        \<and> DEP_ID (polygons ! i) = Some (int i + 1)
        \<and> dp_location d \<in> set (covers (SHAPE (polygons ! i)))"
    if p: "p \<in> set ?located" and i: "i < length polygons"
      and c: "location p \<in> set (covers (SHAPE (polygons ! i)))"
      and e: "\<forall>j < i. location p \<notin> set (covers (SHAPE (polygons ! j)))"
    for p i
  proof -
    obtain j where "j \<in> set ?joined" "dp_DEP_ID j = DEP_ID (polygons ! i)"
      using SpatialJoin_first[OF p i c e] by blast
    then obtain d where d: "d \<in> set deepest" "dp_DEP_ID d = DEP_ID (polygons ! i)"
      using kept by blast
    then have "dp_DEP_ID d = Some (int i + 1)"
      using id_at[OF i] by simp
    then obtain q where q: "q \<in> set polygons" "DEP_ID q = Some (int i + 1)"
      "dp_location d \<in> set (covers (SHAPE q))"
      using inside d(1) by blast
    then obtain k where k: "k < length polygons" "q = polygons ! k"
      by (auto simp: in_set_conv_nth)
    then have "k = i"
      using id_at[OF k(1)] q(2) by simp
    then show ?thesis
      using d q(3) k(2) id_at[OF i] by blast
  qed
  have lost: "\<exists>d \<in> set deepest. dp_DEP_ID d = None"
    if "p \<in> set ?located" "\<forall>q \<in> set polygons. location p \<notin> set (covers (SHAPE q))" for p
    using SpatialJoin_outside[OF that] kept by blast
  have cent: "map DEP_ID centroids = map DEP_ID polygons
      \<and> map POINT centroids = map (\<lambda>q. labelPoint (SHAPE q)) polygons"
    unfolding centroids by (rule FeatureToPoint_fields)
  show ?thesis
    apply (intro conjI)
    using shapes ids keys first cent inside null apply blast+
    using own lost by blast+
qed

theorem dep_id_dense_and_shared_witness:
  "\<exists>polygons deepest centroids.
      analyse example_engine example_bathy
        [example_polygon shape_A (PFloat (- 3)), example_polygon shape_B (PInt (- 2))]
        = Inr (polygons, deepest, centroids)
      \<and> map DEP_ID polygons = [Some 1, Some 2]
      \<and> map SHAPE polygons = [shape_A, shape_B]
      \<and> map location (deepest_point example_engine example_bathy
          [example_polygon shape_A (PFloat (- 3)), example_polygon shape_B (PInt (- 2))])
          = [(0, 0), (0, 2), (5, 5)]
      \<and> map dp_DEP_ID deepest = [Some 1, Some 2]
      \<and> map dp_location deepest = [(0, 0), (5, 5)]
      \<and> distinct (map dp_DEP_ID deepest)
      \<and> map DEP_ID centroids = map DEP_ID polygons"
proof -
  let ?input = "[example_polygon shape_A (PFloat (- 3)), example_polygon shape_B (PInt (- 2))]"
  let ?run = "analyse example_engine example_bathy ?input"
  have "\<exists>out. ?run = Inr out
      \<and> map dp_DEP_ID (fst (snd out)) = [Some 1, Some 2]
      \<and> map dp_location (fst (snd out)) = [(0, 0), (5, 5)]"
    by (simp add: analyse_def example_engine_def example_bathy_def loop_body_def
      example_polygon_def shape_A_def shape_B_def hypot_def on_ok_def eccentricity_def
      math_sqrt_def azimuth_def thinness_ratio_def diameter_depth_ratio_def updateRow_def
      Let_def deepest_point_def depression_depth_def Con_def raster_less_def raster_abs_def
      raster_minus_def RasterToPoint_def ExtractMultiValuesToPoints_def
      List.map_filter_def SpatialJoin_def DeleteIdentical_def)
  then obtain polygons deepest centroids where run: "?run = Inr (polygons, deepest, centroids)"
    and d: "map dp_DEP_ID deepest = [Some 1, Some 2]"
      "map dp_location deepest = [(0, 0), (5, 5)]"
    by (metis prod.collapse)
  have located: "map location (deepest_point example_engine example_bathy ?input)
      = [(0, 0), (0, 2), (5, 5)]"
    by (simp add: deepest_point_def example_engine_def example_bathy_def depression_depth_def
      Con_def raster_less_def raster_abs_def raster_minus_def RasterToPoint_def
      ExtractMultiValuesToPoints_def List.map_filter_def)
  note t = dep_id_dense_and_shared[OF run]
  have shapes: "map SHAPE polygons = [shape_A, shape_B]"
    using t by (simp add: example_engine_def example_polygon_def)
  then have "length polygons = 2"
    using length_map[of SHAPE polygons] by simp
  then have ids: "map DEP_ID polygons = [Some 1, Some 2]"
    using t by (simp add: upto_rec1)
  have cent: "map DEP_ID centroids = map DEP_ID polygons"
    and dist: "distinct (map dp_DEP_ID deepest)"
    using t by blast+
  show ?thesis
    apply (rule exI[of _ polygons], rule exI[of _ deepest], rule exI[of _ centroids])
    using run d ids shapes located cent dist by simp
qed

text \<open>
  Claim C5 as stated fails. With an engine whose smoothing leaves the cells \<open>(0,0)\<close> and
  \<open>(0,2)\<close> outside polygon A, the run saves polygon A with \<open>DEP_ID\<close> 1 and its centroid
  with \<open>DEP_ID\<close> 1, but the deepest point located for polygon A, at the cell \<open>(0,0)\<close> of
  its unsmoothed geometry, is saved without a \<open>DEP_ID\<close>, and no deepest point carries
  \<open>DEP_ID\<close> 1.
\<close>

theorem dep_id_counterexample:
  "\<exists>polygons deepest centroids.
      analyse shrinking_engine example_bathy
        [example_polygon shape_A (PFloat (- 3)), example_polygon shape_B (PInt (- 2))]
        = Inr (polygons, deepest, centroids)
      \<and> (0, 0) \<in> set (covers (SHAPE (example_polygon shape_A (PFloat (- 3)))))
      \<and> map location (deepest_point shrinking_engine example_bathy
          [example_polygon shape_A (PFloat (- 3)), example_polygon shape_B (PInt (- 2))])
          = [(0, 0), (0, 2), (5, 5)]
      \<and> map DEP_ID polygons = [Some 1, Some 2]
      \<and> map DEP_ID centroids = [Some 1, Some 2]
      \<and> map (\<lambda>d. (dp_location d, dp_DEP_ID d)) deepest = [((0, 0), None), ((5, 5), Some 2)]"
  by (simp add: analyse_def shrinking_engine_def example_engine_def example_bathy_def
      loop_body_def example_polygon_def shape_A_def shape_B_def hypot_def on_ok_def
      eccentricity_def math_sqrt_def azimuth_def thinness_ratio_def diameter_depth_ratio_def
      updateRow_def Let_def deepest_point_def depression_depth_def Con_def raster_less_def
      raster_abs_def raster_minus_def RasterToPoint_def ExtractMultiValuesToPoints_def
      List.map_filter_def SpatialJoin_def DeleteIdentical_def FeatureToPoint_def
      attributes.defs atan2_def)

section \<open>Properties of the size filter\<close>

lemma size_filter_set:
  "set (size_filter cell_size max_area ps) =
     {p\<lparr>AREA_M := Some (area (SHAPE p))\<rparr> | p.
        p \<in> set ps \<and> (cell_size * 2)\<^sup>2 \<le> area (SHAPE p)
          \<and> area (SHAPE p) \<le> real_of_int max_area}"
  by (auto simp: size_filter_def Let_def)

text \<open>
  Claim C6 at its failing input. The layer keeps exactly the polygons of area between
  \<open>(2\<cdot>cell_size)\<^sup>2\<close> and \<open>max_area\<close>. The test of line 94 compares the \<^verbatim>\<open>Result\<close>
  object of \<^verbatim>\<open>GetCount_management\<close> with 1, which is never true, so \<^verbatim>\<open>NoFeatures\<close> is
  never raised: the run goes on to lines 98-121 with whatever layer it has. For one
  candidate polygon of area 2, cell size 1 and \<open>max_area = 100\<close> the layer is empty and
  the run goes on with the empty layer.
\<close>

theorem no_features_never_raised:
  "identify bathy_maximum check_extension cell_size max_area depression_polygons depth_join =
     (if bathy_maximum > 0 then Inl NotNegative
      else if check_extension \<noteq> ''Available'' then Inl LicenseError
      else depth_join (size_filter cell_size max_area depression_polygons))
   \<and> set (size_filter cell_size max_area depression_polygons) =
       {p\<lparr>AREA_M := Some (area (SHAPE p))\<rparr> | p.
          p \<in> set depression_polygons \<and> (cell_size * 2)\<^sup>2 \<le> area (SHAPE p)
            \<and> area (SHAPE p) \<le> real_of_int max_area}
   \<and> size_filter 1 100 [example_polygon shape_B (PFloat (- 2))] = []
   \<and> identify (- 5) ''Available'' 1 100 [example_polygon shape_B (PFloat (- 2))] depth_join
       = depth_join []"
  by (simp add: identify_def GetCount_def py2_less_number_def Let_def size_filter_set)
    (simp add: size_filter_def example_polygon_def shape_B_def)

end
